theory Spec2Isabelle
  imports Main "HOL-Library.Sublist"
begin

section \<open>FileEditorTracker: reconciling open editors with file changes\<close>

text \<open>
  A shallow embedding of \<^verbatim>\<open>fileEditorTracker.ts\<close>. The tracker reads the editor
  registry (groups of editor inputs, visible editors, text models) and issues commands
  to collaborators: \<^verbatim>\<open>input.dispose()\<close>, \<^verbatim>\<open>editorService.openEditor(...)\<close> and
  \<^verbatim>\<open>textModel.load()\<close>. The embedding returns the commands of a handler, in the
  order in which the handler issues them.
\<close>

subsection \<open>Resources and paths\<close>

text \<open>
  Modelled from the spec: class \<^verbatim>\<open>URI\<close> (vs/base/common/uri) is imported by the
  tracker. Section 3 describes a resource identity as an opaque, comparable, path-like
  identifier. A resource is a file path; \<^verbatim>\<open>fsPath\<close> reads the path,
  \<^verbatim>\<open>URI.file\<close> builds a resource from a path and \<^verbatim>\<open>toString()\<close> is an
  injective rendering of it.
\<close>

datatype URI = URI_file (fsPath: string)

definition toString :: "URI \<Rightarrow> string" where
  "toString u = ''file://'' @ fsPath u"

text \<open>
  Modelled from the spec: \<^verbatim>\<open>paths.isEqualOrParent(path, candidate)\<close>
  (vs/base/common/paths) is imported by the tracker. Section 4.5: true if \<open>path\<close>
  equals \<open>candidate\<close> or \<open>candidate\<close> is a prefix of \<open>path\<close> at a segment boundary
  (not a raw string prefix).
\<close>

definition isEqualOrParent :: "string \<Rightarrow> string \<Rightarrow> bool" where
  "isEqualOrParent path candidate \<longleftrightarrow> path = candidate \<or> prefix (candidate @ ''/'') path"

text \<open>
  Modelled from the spec: \<^verbatim>\<open>paths.join\<close> (vs/base/common/paths) is imported by the
  tracker. Section 4.5: the new ancestor replaces the old one and the trailing segments
  are kept verbatim, so joining puts one separator between the two parts.
\<close>

definition paths_join :: "string \<Rightarrow> string \<Rightarrow> string" where
  "paths_join a b = a @ ''/'' @ b"

text \<open>
  JavaScript's \<^verbatim>\<open>String.prototype.indexOf\<close>: the first position at which the
  search string occurs, or -1.
\<close>

fun indexOf_from :: "nat \<Rightarrow> string \<Rightarrow> string \<Rightarrow> int" where
  "indexOf_from i [] t = (if t = [] then int i else - 1)"
| "indexOf_from i (c # s) t = (if prefix t (c # s) then int i else indexOf_from (Suc i) s t)"

definition indexOf :: "string \<Rightarrow> string \<Rightarrow> int" where
  "indexOf s t = indexOf_from 0 s t"

text \<open>
  JavaScript's \<^verbatim>\<open>String.prototype.substr(start)\<close>: a negative start counts from
  the end (not before the beginning), a start beyond the end gives the empty string.
\<close>

definition substr :: "string \<Rightarrow> int \<Rightarrow> string" where
  "substr s start =
     (if start < 0 then drop (nat (max (int (length s) + start) 0)) s
      else drop (nat start) s)"

subsection \<open>Editor inputs, groups, editors, models\<close>

record FileEditorInput =
  getResource :: URI
  isDirty :: bool

text \<open>
  The tracker tells editor inputs apart with \<^verbatim>\<open>instanceof\<close>:
  \<^verbatim>\<open>FileEditorInput\<close>, \<^verbatim>\<open>SideBySideEditorInput\<close> (with its
  \<^verbatim>\<open>master\<close> and \<^verbatim>\<open>details\<close> inputs), or any other editor input.
\<close>

datatype EditorInput =
    FileInput FileEditorInput
  | SideBySideEditorInput (master: EditorInput) (details: EditorInput)
  | OtherEditorInput

text \<open>
  Modelled from the spec: the editor group (vs/workbench/common/editor) is an external
  registry. Section 6: a group lists its handles in order and answers
  \<^verbatim>\<open>isPinned\<close>, \<^verbatim>\<open>indexOf\<close> and \<^verbatim>\<open>isActive\<close> for a handle; the
  tracker forwards these answers unchanged.
\<close>

record EditorGroup =
  getEditors :: "EditorInput list"
  isPinned :: "EditorInput \<Rightarrow> bool"
  group_indexOf :: "EditorInput \<Rightarrow> int"
  isActive :: "EditorInput \<Rightarrow> bool"

text \<open>
  Modelled from the spec: \<^verbatim>\<open>ModelState\<close> (textfiles.ts) is imported by the
  tracker, which names only \<^verbatim>\<open>SAVED\<close>. Section 6 lists the states clean, dirty
  and saving.
\<close>

datatype ModelState = SAVED | DIRTY | PENDING_SAVE

record TextFileEditorModel =
  model_getResource :: URI
  getState :: ModelState
  getLastSaveAttemptTime :: int
  getLastModifiedTime :: int

text \<open>
  A visible editor: its input (possibly none), its identifier, its position, whether
  it is visible, and the view state that \<^verbatim>\<open>getControl().saveViewState()\<close>
  returns.
\<close>

record Editor =
  input :: "EditorInput option"
  getId :: string
  position :: nat
  isVisible :: bool
  saveViewState :: nat

text \<open>
  The identifier of the binary file editor is declared in files.ts; the tracker only
  compares an editor's identifier with it.
\<close>

definition BINARY_FILE_EDITOR_ID :: string where
  "BINARY_FILE_EDITOR_ID = ''workbench.editors.files.binaryFileEditor''"

text \<open>
  What the tracker reads: the groups of the stacks model (the position of a group is
  its index), the visible editors, and the text file models by resource.
\<close>

record Workbench =
  groups :: "EditorGroup list"
  getVisibleEditors :: "Editor list"
  models :: "URI \<Rightarrow> TextFileEditorModel option"

subsection \<open>Events\<close>

datatype FileChangeType = UPDATED | ADDED | DELETED

text \<open>
  Modelled from the spec: \<^verbatim>\<open>FileChangesEvent\<close> (vs/platform/files) is imported by
  the tracker. Section 4.1: a batch of changes with the query
  \<^verbatim>\<open>contains(resource, kind)\<close>. The tracker uses this query and
  \<^verbatim>\<open>gotDeleted()\<close> only, so the event is given by the answers to both.
\<close>

record FileChangesEvent =
  contains :: "URI \<Rightarrow> FileChangeType \<Rightarrow> bool"
  gotDeleted :: bool

record IFileStat =
  resource :: URI

text \<open>
  Modelled from the spec: \<^verbatim>\<open>LocalFileChangeEvent\<close> (textfiles.ts) is imported by
  the tracker. Section 4.1: a local lifecycle event carries an optional before/after
  pair and the flags "was deleted" and "was moved".
\<close>

record LocalFileChangeEvent =
  getBefore :: "IFileStat option"
  getAfter :: "IFileStat option"
  gotMoved :: bool
  local_gotDeleted :: bool

subsection \<open>Commands and errors\<close>

text \<open>
  \<^item> \<open>Dispose f\<close>: \<^verbatim>\<open>input.dispose()\<close> (line 116);
  \<^item> \<open>OpenEditor r preserveFocus pinned index inactive pos\<close>:
    \<^verbatim>\<open>openEditor({ resource, options }, position)\<close> (line 165);
  \<^item> \<open>ForceOpenEditor i forceOpen preserveFocus pos\<close>:
    \<^verbatim>\<open>openEditor(editor.input, { forceOpen, preserveFocus }, editor.position)\<close>
    (line 213);
  \<^item> \<open>LoadModel m editor viewState currentMtime\<close>: \<^verbatim>\<open>textModel.load()\<close> with the
    values its completion callback has captured (lines 199 to 206).
\<close>

datatype Command =
    Dispose FileEditorInput
  | OpenEditor URI bool bool int bool nat
  | ForceOpenEditor "EditorInput option" bool bool nat
  | LoadModel TextFileEditorModel Editor nat int

text \<open>Reading a property of \<^verbatim>\<open>null\<close> throws a TypeError.\<close>

datatype error = TypeError

text \<open>
  The outcome of a handler that may throw: the commands issued before it returned
  or threw, and the error if it threw.
\<close>

type_synonym outcome = "Command list \<times> error option"

text \<open>\<^verbatim>\<open>forEach\<close> with a body that may throw: the first throw ends the loop.\<close>

fun forEach :: "('a \<Rightarrow> outcome) \<Rightarrow> 'a list \<Rightarrow> outcome" where
  "forEach f [] = ([], None)"
| "forEach f (x # xs) =
     (case f x of
        (cs, Some err) \<Rightarrow> (cs, Some err)
      | (cs, None) \<Rightarrow> (case forEach f xs of (cs', r) \<Rightarrow> (cs @ cs', r)))"

subsection \<open>Deletes (lines 94 to 145)\<close>

fun fileInputsOf :: "EditorInput \<Rightarrow> FileEditorInput list" where
  "fileInputsOf (FileInput f) = [f]"
| "fileInputsOf (SideBySideEditorInput m d) =
     (case m of FileInput f \<Rightarrow> [f] | _ \<Rightarrow> []) @ (case d of FileInput f \<Rightarrow> [f] | _ \<Rightarrow> [])"
| "fileInputsOf OtherEditorInput = []"

definition getOpenedFileInputs :: "Workbench \<Rightarrow> FileEditorInput list" where
  "getOpenedFileInputs w = concat (map (\<lambda>g. concat (map fileInputsOf (getEditors g))) (groups w))"

text \<open>
  The body of the loop of \<^verbatim>\<open>handleDeletes\<close>. The first argument is a resource
  (\<open>Inl\<close>, from a local event) or a batch event (\<open>Inr\<close>).
\<close>

definition disposeIfDeleted ::
  "URI + FileChangesEvent \<Rightarrow> URI option \<Rightarrow> FileEditorInput \<Rightarrow> Command list" where
  "disposeIfDeleted arg1 movedTo inp =
     (if isDirty inp then []
      else if (case movedTo of None \<Rightarrow> False | Some m \<Rightarrow> fsPath m = fsPath (getResource inp)) then []
      else
        let matches =
          (case arg1 of
             Inr e \<Rightarrow> contains e (getResource inp) DELETED
           | Inl u \<Rightarrow> isEqualOrParent (toString (getResource inp)) (toString u))
        in if matches then [Dispose inp] else [])"

definition handleDeletes ::
  "Workbench \<Rightarrow> URI + FileChangesEvent \<Rightarrow> URI option \<Rightarrow> Command list" where
  "handleDeletes w arg1 movedTo = concat (map (disposeIfDeleted arg1 movedTo) (getOpenedFileInputs w))"

subsection \<open>Moves (lines 147 to 170)\<close>

text \<open>
  The body of the inner loop of \<^verbatim>\<open>handleMovedFileInOpenedEditors\<close> for the
  input \<open>inp\<close> of the group \<open>grp\<close> at position \<open>pos\<close>. The old resource may be
  \<^verbatim>\<open>null\<close> (line 74); reading its \<^verbatim>\<open>fsPath\<close> then throws (line 155).
\<close>

definition reopenMoved ::
  "URI option \<Rightarrow> URI \<Rightarrow> nat \<Rightarrow> EditorGroup \<Rightarrow> EditorInput \<Rightarrow> outcome" where
  "reopenMoved oldResource newResource pos grp inp =
     (case inp of
        FileInput f \<Rightarrow>
          (case oldResource of
             None \<Rightarrow> ([], Some TypeError)
           | Some old \<Rightarrow>
               let resource = getResource f in
               if isEqualOrParent (fsPath resource) (fsPath old) then
                 let reopenFileResource =
                   (if toString old = toString resource then newResource
                    else
                      let index = indexOf (fsPath resource) (fsPath old)
                      in URI_file (paths_join (fsPath newResource)
                           (substr (fsPath resource) (index + int (length (fsPath old)) + 1))))
                 in ([OpenEditor reopenFileResource True (isPinned grp inp) (group_indexOf grp inp)
                        (\<not> isActive grp inp) pos], None)
               else ([], None))
      | _ \<Rightarrow> ([], None))"

text \<open>
  The only caller passes \<^verbatim>\<open>after ? after.resource : null\<close> as the new resource
  under the guard \<^verbatim>\<open>movedTo\<close>, where \<^verbatim>\<open>after\<close> is not null: the new resource
  is a resource.
\<close>

definition handleMovedFileInOpenedEditors :: "Workbench \<Rightarrow> URI option \<Rightarrow> URI \<Rightarrow> outcome" where
  "handleMovedFileInOpenedEditors w oldResource newResource =
     forEach (\<lambda>(pos, grp). forEach (reopenMoved oldResource newResource pos grp) (getEditors grp))
       (enumerate 0 (groups w))"

subsection \<open>Updates to visible editors (lines 172 to 260)\<close>

definition FILE_CHANGE_UPDATE_DELAY :: int where
  "FILE_CHANGE_UPDATE_DELAY = 2000"

definition getMatchingFileEditorInputFromInput ::
  "EditorInput \<Rightarrow> FileChangesEvent \<Rightarrow> FileEditorInput option" where
  "getMatchingFileEditorInputFromInput inp e =
     (case inp of
        FileInput f \<Rightarrow> if contains e (getResource f) UPDATED then Some f else None
      | _ \<Rightarrow> None)"

definition getMatchingFileEditorInputFromSideBySide ::
  "EditorInput \<Rightarrow> EditorInput \<Rightarrow> FileChangesEvent \<Rightarrow> FileEditorInput option" where
  "getMatchingFileEditorInputFromSideBySide m d e =
     (case getMatchingFileEditorInputFromInput m e of
        Some res \<Rightarrow> Some res
      | None \<Rightarrow> getMatchingFileEditorInputFromInput d e)"

text \<open>
  Lines 175 to 187: the file input that update handling goes on with for a visible
  editor, if any. A side by side input is replaced by its matching file input first;
  then the input must be a file input whose resource the event contains as updated or
  as added.
\<close>

definition candidateInput :: "FileChangesEvent \<Rightarrow> Editor \<Rightarrow> FileEditorInput option" where
  "candidateInput e editor =
     (let inp =
        (case input editor of
           Some (SideBySideEditorInput m d) \<Rightarrow>
             map_option FileInput (getMatchingFileEditorInputFromSideBySide m d e)
         | i \<Rightarrow> i)
      in case inp of
           Some (FileInput f) \<Rightarrow>
             if contains e (getResource f) UPDATED \<or> contains e (getResource f) ADDED
             then Some f else None
         | _ \<Rightarrow> None)"

text \<open>Lines 188 to 214, with \<open>now\<close> the value of \<^verbatim>\<open>Date.now()\<close>.\<close>

definition updateEditor :: "Workbench \<Rightarrow> int \<Rightarrow> Editor \<Rightarrow> FileEditorInput \<Rightarrow> Command list" where
  "updateEditor w now editor f =
     (case models w (getResource f) of
        Some textModel \<Rightarrow>
          if getState textModel = SAVED then
            let lastSaveTime = getLastSaveAttemptTime textModel in
            if now - lastSaveTime > FILE_CHANGE_UPDATE_DELAY
            then [LoadModel textModel editor (saveViewState editor) (getLastModifiedTime textModel)]
            else []
          else []
      | None \<Rightarrow>
          if getId editor = BINARY_FILE_EDITOR_ID
          then [ForceOpenEditor (input editor) True True (position editor)]
          else [])"

definition handleUpdatesToVisibleEditors ::
  "Workbench \<Rightarrow> FileChangesEvent \<Rightarrow> int \<Rightarrow> Command list" where
  "handleUpdatesToVisibleEditors w e now =
     concat (map (\<lambda>editor. case candidateInput e editor of
                              Some f \<Rightarrow> updateEditor w now editor f
                            | None \<Rightarrow> [])
                 (getVisibleEditors w))"

definition isEditorShowingPath :: "Editor \<Rightarrow> URI \<Rightarrow> bool" where
  "isEditorShowingPath editor r =
     (if \<not> isVisible editor then False
      else
        case input editor of
          None \<Rightarrow> False
        | Some i \<Rightarrow>
            let i' = (case i of SideBySideEditorInput m d \<Rightarrow> m | _ \<Rightarrow> i)
            in (case i' of
                  FileInput f \<Rightarrow> toString (getResource f) = toString r
                | _ \<Rightarrow> False))"

text \<open>
  The completion callback of \<^verbatim>\<open>textModel.load()\<close> (lines 202 to 206), run on the
  model and the editor as they are when the load completes: the view state that
  \<^verbatim>\<open>restoreViewState\<close> is called with, if it is called. Other commands have no
  such callback.
\<close>

fun loadDone :: "Command \<Rightarrow> TextFileEditorModel \<Rightarrow> Editor \<Rightarrow> nat option" where
  "loadDone (LoadModel m editor viewState currentMtime) m' editor' =
     (if getLastModifiedTime m' \<noteq> currentMtime \<and> isEditorShowingPath editor' (model_getResource m')
      then Some viewState else None)"
| "loadDone _ m' editor' = None"

subsection \<open>The two listeners (lines 66 to 92)\<close>

text \<open>
  \<^verbatim>\<open>onLocalFileChange\<close>. The reopen commands of a move are issued before
  \<^verbatim>\<open>handleDeletes\<close> enumerates the opened inputs again, so the registry is read
  twice: \<open>w\<close> is the registry that move handling reads, \<open>w'\<close> the one that delete
  handling reads.
\<close>

definition onLocalFileChange :: "Workbench \<Rightarrow> Workbench \<Rightarrow> LocalFileChangeEvent \<Rightarrow> outcome" where
  "onLocalFileChange w w' e =
     (let movedTo = (if gotMoved e then map_option resource (getAfter e) else None);
          moved =
            (case movedTo of
               None \<Rightarrow> ([], None)
             | Some afterResource \<Rightarrow>
                 handleMovedFileInOpenedEditors w (map_option resource (getBefore e)) afterResource)
      in case moved of
           (cs, Some err) \<Rightarrow> (cs, Some err)
         | (cs, None) \<Rightarrow>
             if local_gotDeleted e \<or> movedTo \<noteq> None then
               (case getBefore e of
                  None \<Rightarrow> (cs, Some TypeError)
                | Some beforeStat \<Rightarrow>
                    (cs @ handleDeletes w' (Inl (resource beforeStat)) movedTo, None))
             else (cs, None))"

text \<open>
  \<^verbatim>\<open>onFileChanges\<close>. Neither a load nor the forced opening of an input that is
  open already adds or removes an opened input, so both handlers read \<open>w\<close>.
\<close>

definition onFileChanges :: "Workbench \<Rightarrow> FileChangesEvent \<Rightarrow> int \<Rightarrow> Command list" where
  "onFileChanges w e now =
     handleUpdatesToVisibleEditors w e now @
     (if gotDeleted e then handleDeletes w (Inr e) None else [])"

subsection \<open>The spec's path rewriting and open handles\<close>

text \<open>
  Section 4.5 of the spec, in its words: \<open>rewrite\<close> replaces the old ancestor prefix of
  a descendant with the new ancestor and keeps all trailing segments verbatim; if the
  descendant is the old ancestor itself, the result is the new ancestor. The source's
  computation (lines 157 to 161) is compared with it below.
\<close>

definition rewrite :: "URI \<Rightarrow> URI \<Rightarrow> URI \<Rightarrow> URI" where
  "rewrite oldAncestor newAncestor descendant =
     (if descendant = oldAncestor then newAncestor
      else URI_file (fsPath newAncestor @ drop (length (fsPath oldAncestor)) (fsPath descendant)))"

text \<open>
  Modelled from the spec: \<^verbatim>\<open>FileEditorInput.dispose()\<close> and the registry's reaction
  to it are outside the tracker. Section 3: a handle is destroyed only by an explicit
  dispose command. The handles that a pass leaves open are the opened file inputs that
  it did not dispose.
\<close>

definition survivors :: "Workbench \<Rightarrow> Command list \<Rightarrow> FileEditorInput list" where
  "survivors w cs = filter (\<lambda>f. Dispose f \<notin> set cs) (getOpenedFileInputs w)"

subsection \<open>An example workbench\<close>

definition x_ts :: FileEditorInput where
  "x_ts = \<lparr>getResource = URI_file ''/proj/src/x.ts'', isDirty = False\<rparr>"

definition y_ts :: FileEditorInput where
  "y_ts = \<lparr>getResource = URI_file ''/proj/src/y.ts'', isDirty = True\<rparr>"

definition readme_md :: FileEditorInput where
  "readme_md = \<lparr>getResource = URI_file ''/proj/README.md'', isDirty = False\<rparr>"

definition a_png :: FileEditorInput where
  "a_png = \<lparr>getResource = URI_file ''/img/a.png'', isDirty = False\<rparr>"

text \<open>A group of a nonempty list of editors, in order; the first one is active and pinned.\<close>

definition groupOf :: "EditorInput list \<Rightarrow> EditorGroup" where
  "groupOf inputs =
     \<lparr>getEditors = inputs,
      isPinned = (\<lambda>i. i = hd inputs),
      group_indexOf = (\<lambda>i. int (length (takeWhile (\<lambda>j. j \<noteq> i) inputs))),
      isActive = (\<lambda>i. i = hd inputs)\<rparr>"

definition ex_text_editor :: Editor where
  "ex_text_editor =
     \<lparr>input = Some (FileInput x_ts), getId = ''workbench.editors.files.textFileEditor'',
      position = 0, isVisible = True, saveViewState = 7\<rparr>"

definition ex_binary_editor :: Editor where
  "ex_binary_editor =
     \<lparr>input = Some (FileInput a_png), getId = BINARY_FILE_EDITOR_ID,
      position = 1, isVisible = True, saveViewState = 0\<rparr>"

definition ex_model :: TextFileEditorModel where
  "ex_model =
     \<lparr>model_getResource = URI_file ''/proj/src/x.ts'', getState = SAVED,
      getLastSaveAttemptTime = 10000, getLastModifiedTime = 9000\<rparr>"

definition ex_workbench :: Workbench where
  "ex_workbench =
     \<lparr>groups = [groupOf [FileInput x_ts, FileInput y_ts, FileInput readme_md],
                groupOf [FileInput a_png]],
      getVisibleEditors = [ex_text_editor, ex_binary_editor],
      models = (\<lambda>r. if r = URI_file ''/proj/src/x.ts'' then Some ex_model else None)\<rparr>"

text \<open>A batch event made of a list of changes.\<close>

definition changesEvent :: "(URI \<times> FileChangeType) list \<Rightarrow> FileChangesEvent" where
  "changesEvent cs =
     \<lparr>contains = (\<lambda>r t. (r, t) \<in> set cs), gotDeleted = (DELETED \<in> set (map snd cs))\<rparr>"

definition ex_local_delete :: LocalFileChangeEvent where
  "ex_local_delete =
     \<lparr>getBefore = Some \<lparr>resource = URI_file ''/proj/src''\<rparr>, getAfter = None,
      gotMoved = False, local_gotDeleted = True\<rparr>"

text \<open>A rename that changes the case of a folder name only: the registry before the
  reopening, and the registry with the reopened input in front of the old one.\<close>

definition upper_file :: FileEditorInput where
  "upper_file = \<lparr>getResource = URI_file ''/A/file.txt'', isDirty = False\<rparr>"

definition lower_file :: FileEditorInput where
  "lower_file = \<lparr>getResource = URI_file ''/a/file.txt'', isDirty = False\<rparr>"

definition ex_rename :: LocalFileChangeEvent where
  "ex_rename =
     \<lparr>getBefore = Some \<lparr>resource = URI_file ''/A/file.txt''\<rparr>,
      getAfter = Some \<lparr>resource = URI_file ''/a/file.txt''\<rparr>,
      gotMoved = True, local_gotDeleted = False\<rparr>"

definition rename_before :: Workbench where
  "rename_before =
     \<lparr>groups = [groupOf [FileInput upper_file]], getVisibleEditors = [], models = (\<lambda>r. None)\<rparr>"

definition rename_reopened :: Workbench where
  "rename_reopened =
     \<lparr>groups = [groupOf [FileInput lower_file, FileInput upper_file]], getVisibleEditors = [],
      models = (\<lambda>r. None)\<rparr>"

text \<open>A workbench whose only editor is a side by side input.\<close>

definition composite_workbench :: Workbench where
  "composite_workbench =
     \<lparr>groups = [groupOf [SideBySideEditorInput (FileInput readme_md) (FileInput x_ts)]],
      getVisibleEditors = [], models = (\<lambda>r. None)\<rparr>"

text \<open>The example workbench once the input of \<^verbatim>\<open>x.ts\<close> has been disposed.\<close>

definition ex_after_delete :: Workbench where
  "ex_after_delete =
     \<lparr>groups = [groupOf [FileInput y_ts, FileInput readme_md], groupOf [FileInput a_png]],
      getVisibleEditors = [ex_binary_editor],
      models = (\<lambda>r. None)\<rparr>"

text \<open>The example model after a load that found a newer file.\<close>

definition ex_reloaded_model :: TextFileEditorModel where
  "ex_reloaded_model =
     \<lparr>model_getResource = URI_file ''/proj/src/x.ts'', getState = SAVED,
      getLastSaveAttemptTime = 10000, getLastModifiedTime = 12500\<rparr>"

text \<open>A visible side by side editor, and local events without the stat of the source.\<close>

definition ex_side_editor :: Editor where
  "ex_side_editor =
     \<lparr>input = Some (SideBySideEditorInput (FileInput readme_md) (FileInput x_ts)),
      getId = ''workbench.editor.sidebysideEditor'', position = 0, isVisible = True,
      saveViewState = 3\<rparr>"

definition side_workbench :: Workbench where
  "side_workbench =
     \<lparr>groups = [groupOf [SideBySideEditorInput (FileInput readme_md) (FileInput x_ts)]],
      getVisibleEditors = [ex_side_editor],
      models = (\<lambda>r. if r = URI_file ''/proj/src/x.ts'' then Some ex_model else None)\<rparr>"

definition ex_move_without_before :: LocalFileChangeEvent where
  "ex_move_without_before =
     \<lparr>getBefore = None, getAfter = Some \<lparr>resource = URI_file ''/proj/lib''\<rparr>,
      gotMoved = True, local_gotDeleted = False\<rparr>"

definition ex_delete_without_before :: LocalFileChangeEvent where
  "ex_delete_without_before =
     \<lparr>getBefore = None, getAfter = None, gotMoved = False, local_gotDeleted = True\<rparr>"

definition empty_workbench :: Workbench where
  "empty_workbench = \<lparr>groups = [], getVisibleEditors = [], models = (\<lambda>r. None)\<rparr>"

text \<open>A workbench whose only editor is a side by side input with \<^verbatim>\<open>x.ts\<close> as master.\<close>

definition master_workbench :: Workbench where
  "master_workbench =
     \<lparr>groups = [groupOf [SideBySideEditorInput (FileInput x_ts) (FileInput readme_md)]],
      getVisibleEditors = [], models = (\<lambda>r. None)\<rparr>"

section \<open>Properties\<close>

subsection \<open>What each handler issues\<close>

lemma forEach_no_throw:
  "(\<And>x. x \<in> set xs \<Longrightarrow> snd (f x) = None) \<Longrightarrow>
   forEach f xs = (concat (map (\<lambda>x. fst (f x)) xs), None)"
proof (induction xs)
  case Nil
  show ?case by simp
next
  case (Cons a xs)
  have "snd (f a) = None"
    by (simp add: Cons.prems)
  then obtain cs where fa: "f a = (cs, None)"
    by (cases "f a") simp
  have "forEach f xs = (concat (map (\<lambda>x. fst (f x)) xs), None)"
    by (rule Cons.IH) (simp add: Cons.prems)
  then show ?case
    by (simp add: fa)
qed

lemma forEach_commands:
  "c \<in> set (fst (forEach f xs)) \<Longrightarrow> \<exists>x\<in>set xs. c \<in> set (fst (f x))"
  by (induction xs) (auto split: prod.splits option.splits)

lemma toString_eq: "toString a = toString b \<longleftrightarrow> a = b"
  by (cases a; cases b) (simp add: toString_def)

lemma indexOf_prefix: "prefix t s \<Longrightarrow> indexOf s t = 0"
  by (cases s) (simp_all add: indexOf_def)

lemma substr_append: "substr (a @ b) (int (length a)) = b"
  by (simp add: substr_def)

lemma reopen_target:
  assumes "isEqualOrParent (fsPath r) (fsPath old)" and "old \<noteq> r"
  shows "URI_file (paths_join (fsPath new)
           (substr (fsPath r) (indexOf (fsPath r) (fsPath old) + int (length (fsPath old)) + 1)))
         = rewrite old new r"
proof -
  from assms have "prefix (fsPath old @ ''/'') (fsPath r)"
    by (auto simp: isEqualOrParent_def URI.expand)
  then obtain rest where r: "fsPath r = (fsPath old @ ''/'') @ rest"
    by (auto simp: prefix_def)
  then have "prefix (fsPath old) (fsPath r)"
    by (simp add: prefix_def)
  then have i: "indexOf (fsPath r) (fsPath old) = 0"
    by (rule indexOf_prefix)
  have "substr (fsPath r) (int (length (fsPath old @ ''/''))) = rest"
    unfolding r by (rule substr_append)
  then have "substr (fsPath r) (indexOf (fsPath r) (fsPath old) + int (length (fsPath old)) + 1) = rest"
    by (simp add: i add.commute)
  moreover have "drop (length (fsPath old)) (fsPath r) = ''/'' @ rest"
    by (simp add: r)
  ultimately show ?thesis
    using assms(2) by (simp add: rewrite_def paths_join_def)
qed

lemma reopenMoved_file:
  "reopenMoved (Some old) new pos grp (FileInput f) =
     (if isEqualOrParent (fsPath (getResource f)) (fsPath old)
      then [OpenEditor (rewrite old new (getResource f)) True (isPinned grp (FileInput f))
              (group_indexOf grp (FileInput f)) (\<not> isActive grp (FileInput f)) pos]
      else [], None)"
proof (cases "old = getResource f")
  case True
  then show ?thesis
    by (simp add: reopenMoved_def toString_eq rewrite_def)
next
  case False
  then show ?thesis
    using reopen_target [of "getResource f" old new]
    by (simp add: reopenMoved_def toString_eq Let_def)
qed

lemma reopenMoved_other:
  "reopenMoved old new pos grp (SideBySideEditorInput m d) = ([], None)"
  "reopenMoved old new pos grp OtherEditorInput = ([], None)"
  by (simp_all add: reopenMoved_def)

lemma reopenMoved_no_throw: "snd (reopenMoved (Some old) new pos grp inp) = None"
  by (cases inp) (simp_all add: reopenMoved_file reopenMoved_other)

lemma reopenMoved_commands:
  "c \<in> set (fst (reopenMoved (Some old) new pos grp inp)) \<longleftrightarrow>
   (\<exists>f. inp = FileInput f \<and> isEqualOrParent (fsPath (getResource f)) (fsPath old) \<and>
        c = OpenEditor (rewrite old new (getResource f)) True (isPinned grp inp)
              (group_indexOf grp inp) (\<not> isActive grp inp) pos)"
  by (cases inp) (auto simp: reopenMoved_file reopenMoved_other)

lemma reopenMoved_no_Dispose: "Dispose f \<notin> set (fst (reopenMoved old new pos grp inp))"
  by (auto simp: reopenMoved_def Let_def split: EditorInput.splits option.splits)

lemma handleMoved_Some:
  "handleMovedFileInOpenedEditors w (Some old) new =
     (concat (map (\<lambda>(pos, grp). concat (map (\<lambda>inp. fst (reopenMoved (Some old) new pos grp inp))
        (getEditors grp))) (enumerate 0 (groups w))), None)"
proof -
  have inner: "forEach (reopenMoved (Some old) new pos grp) xs =
      (concat (map (\<lambda>inp. fst (reopenMoved (Some old) new pos grp inp)) xs), None)" for pos grp xs
    by (rule forEach_no_throw) (rule reopenMoved_no_throw)
  have "forEach (\<lambda>(pos, grp). forEach (reopenMoved (Some old) new pos grp) (getEditors grp)) xs =
      (concat (map (\<lambda>(pos, grp). concat (map (\<lambda>inp. fst (reopenMoved (Some old) new pos grp inp))
        (getEditors grp))) xs), None)" for xs
    by (induction xs) (auto simp: inner)
  then show ?thesis
    by (simp add: handleMovedFileInOpenedEditors_def)
qed

lemma handleMoved_commands:
  "c \<in> set (fst (handleMovedFileInOpenedEditors w (Some old) new)) \<longleftrightarrow>
   (\<exists>pos grp f. (pos, grp) \<in> set (enumerate 0 (groups w)) \<and> FileInput f \<in> set (getEditors grp) \<and>
      isEqualOrParent (fsPath (getResource f)) (fsPath old) \<and>
      c = OpenEditor (rewrite old new (getResource f)) True (isPinned grp (FileInput f))
            (group_indexOf grp (FileInput f)) (\<not> isActive grp (FileInput f)) pos)"
  by (auto simp: handleMoved_Some reopenMoved_commands) blast+

lemma handleMoved_no_Dispose:
  "Dispose f \<notin> set (fst (handleMovedFileInOpenedEditors w old new))"
proof
  assume "Dispose f \<in> set (fst (handleMovedFileInOpenedEditors w old new))"
  then obtain x where
    "Dispose f \<in> set (fst ((\<lambda>(pos, grp). forEach (reopenMoved old new pos grp) (getEditors grp)) x))"
    unfolding handleMovedFileInOpenedEditors_def by (blast dest: forEach_commands)
  then have "Dispose f \<in> set (fst (forEach (reopenMoved old new (fst x) (snd x)) (getEditors (snd x))))"
    by (simp add: case_prod_beta)
  then obtain inp where "Dispose f \<in> set (fst (reopenMoved old new (fst x) (snd x) inp))"
    by (blast dest: forEach_commands)
  then show False
    by (simp add: reopenMoved_no_Dispose)
qed

lemma disposeIfDeleted_commands:
  "c \<in> set (disposeIfDeleted arg1 movedTo inp) \<longleftrightarrow>
   c = Dispose inp \<and> \<not> isDirty inp \<and>
   (\<forall>m. movedTo = Some m \<longrightarrow> fsPath m \<noteq> fsPath (getResource inp)) \<and>
   (case arg1 of
      Inr e \<Rightarrow> contains e (getResource inp) DELETED
    | Inl u \<Rightarrow> isEqualOrParent (toString (getResource inp)) (toString u))"
  by (auto simp: disposeIfDeleted_def Let_def split: option.splits sum.splits)

lemma handleDeletes_commands:
  "c \<in> set (handleDeletes w arg1 movedTo) \<longleftrightarrow>
   (\<exists>f\<in>set (getOpenedFileInputs w). c = Dispose f \<and> \<not> isDirty f \<and>
      (\<forall>m. movedTo = Some m \<longrightarrow> fsPath m \<noteq> fsPath (getResource f)) \<and>
      (case arg1 of
         Inr e \<Rightarrow> contains e (getResource f) DELETED
       | Inl u \<Rightarrow> isEqualOrParent (toString (getResource f)) (toString u)))"
  by (auto simp: handleDeletes_def disposeIfDeleted_commands)

lemma updateEditor_commands:
  "c \<in> set (updateEditor w now editor f) \<longleftrightarrow>
   (case models w (getResource f) of
      Some m \<Rightarrow> getState m = SAVED \<and> now - getLastSaveAttemptTime m > FILE_CHANGE_UPDATE_DELAY \<and>
        c = LoadModel m editor (saveViewState editor) (getLastModifiedTime m)
    | None \<Rightarrow> getId editor = BINARY_FILE_EDITOR_ID \<and>
        c = ForceOpenEditor (input editor) True True (position editor))"
  by (auto simp: updateEditor_def Let_def split: option.splits)

lemma handleUpdates_commands:
  "c \<in> set (handleUpdatesToVisibleEditors w e now) \<longleftrightarrow>
   (\<exists>editor\<in>set (getVisibleEditors w). \<exists>f. candidateInput e editor = Some f \<and>
      c \<in> set (updateEditor w now editor f))"
proof
  assume "c \<in> set (handleUpdatesToVisibleEditors w e now)"
  then obtain editor where "editor \<in> set (getVisibleEditors w)"
    and "c \<in> set (case candidateInput e editor of Some f \<Rightarrow> updateEditor w now editor f | None \<Rightarrow> [])"
    by (auto simp: handleUpdatesToVisibleEditors_def)
  then show "\<exists>editor\<in>set (getVisibleEditors w). \<exists>f. candidateInput e editor = Some f \<and>
      c \<in> set (updateEditor w now editor f)"
    by (cases "candidateInput e editor") auto
next
  assume "\<exists>editor\<in>set (getVisibleEditors w). \<exists>f. candidateInput e editor = Some f \<and>
      c \<in> set (updateEditor w now editor f)"
  then obtain editor f where "editor \<in> set (getVisibleEditors w)"
    and "candidateInput e editor = Some f" and "c \<in> set (updateEditor w now editor f)"
    by blast
  then show "c \<in> set (handleUpdatesToVisibleEditors w e now)"
    by (auto simp: handleUpdatesToVisibleEditors_def intro!: bexI [of _ editor])
qed

lemma handleUpdates_no_Dispose: "Dispose f \<notin> set (handleUpdatesToVisibleEditors w e now)"
  by (auto simp: handleUpdates_commands updateEditor_commands split: option.splits)

lemma onLocalFileChange_commands:
  "c \<in> set (fst (onLocalFileChange w w' ev)) \<Longrightarrow>
   (\<exists>old new. c \<in> set (fst (handleMovedFileInOpenedEditors w old new))) \<or>
   (\<exists>b. getBefore ev = Some b \<and>
      c \<in> set (handleDeletes w' (Inl (resource b))
                 (if gotMoved ev then map_option resource (getAfter ev) else None)))"
  by (auto simp: onLocalFileChange_def Let_def split: option.splits prod.splits if_splits)
    (metis fst_conv)+

lemma candidate_of_input:
  assumes "input editor = Some (FileInput f) \<or>
      (\<exists>d. input editor = Some (SideBySideEditorInput (FileInput f) d)) \<or>
      (\<exists>m. input editor = Some (SideBySideEditorInput m (FileInput f)) \<and>
           (\<forall>fm. m = FileInput fm \<longrightarrow> \<not> contains e (getResource fm) UPDATED))"
    and "contains e (getResource f) UPDATED"
  shows "candidateInput e editor = Some f"
proof -
  have "candidateInput e editor = Some f"
    if "input editor = Some (SideBySideEditorInput m (FileInput f))"
      and "\<forall>fm. m = FileInput fm \<longrightarrow> \<not> contains e (getResource fm) UPDATED" for m
    using that assms(2)
    by (cases m) (simp_all add: candidateInput_def getMatchingFileEditorInputFromSideBySide_def
        getMatchingFileEditorInputFromInput_def)
  moreover have "candidateInput e editor = Some f"
    if "input editor = Some (FileInput f) \<or>
      (\<exists>d. input editor = Some (SideBySideEditorInput (FileInput f) d))"
    using that assms(2)
    by (auto simp: candidateInput_def getMatchingFileEditorInputFromSideBySide_def
        getMatchingFileEditorInputFromInput_def)
  ultimately show ?thesis
    using assms(1) by blast
qed

subsection \<open>Dirty handles are never disposed\<close>

text \<open>
  Claim C1. For every open handle that is dirty, processing a delete or move
  notification never issues a dispose command for it: neither \<^verbatim>\<open>handleDeletes\<close>
  (called with a resource or with a batch event, with or without a move destination),
  nor the listener for local events, nor the listener for batch events.
\<close>

theorem dirty_never_disposed:
  assumes "isDirty f"
  shows "Dispose f \<notin> set (handleDeletes w arg1 movedTo) \<and>
         Dispose f \<notin> set (fst (onLocalFileChange w w' ev)) \<and>
         Dispose f \<notin> set (onFileChanges w e now)"
proof (intro conjI)
  show del: "Dispose f \<notin> set (handleDeletes w arg1 movedTo)" for w arg1 movedTo
    using assms by (auto simp: handleDeletes_commands)
  show "Dispose f \<notin> set (fst (onLocalFileChange w w' ev))"
    using del handleMoved_no_Dispose by (blast dest: onLocalFileChange_commands)
  show "Dispose f \<notin> set (onFileChanges w e now)"
    using del by (simp add: onFileChanges_def handleUpdates_no_Dispose)
qed

theorem dirty_never_disposed_witness:
  "isDirty y_ts \<and> y_ts \<in> set (getOpenedFileInputs ex_workbench) \<and>
   Dispose y_ts \<notin> set (handleDeletes ex_workbench (Inl (URI_file ''/proj/src'')) None) \<and>
   Dispose y_ts \<notin> set (fst (onLocalFileChange ex_workbench ex_workbench ex_local_delete)) \<and>
   Dispose y_ts \<notin> set (onFileChanges ex_workbench
      (changesEvent [(URI_file ''/proj/src/y.ts'', DELETED)]) 13000)"
  using dirty_never_disposed [of y_ts ex_workbench "Inl (URI_file ''/proj/src'')" None
      ex_workbench ex_local_delete "changesEvent [(URI_file ''/proj/src/y.ts'', DELETED)]" 13000]
  by (simp add: y_ts_def getOpenedFileInputs_def ex_workbench_def groupOf_def)

subsection \<open>Reloading waits for the delay after a save\<close>

text \<open>
  Claim C2, as stated, fails: of a visible side by side input, update handling goes on
  with one input only, the master if it matches (lines 243 to 251). Here the details
  input \<^verbatim>\<open>x.ts\<close> is visible, its resource is updated, its text model is in the
  saved state and the last save attempt was 3000 ms ago; the master is updated too,
  and no load is issued.
\<close>

theorem side_by_side_details_not_reloaded:
  "ex_side_editor \<in> set (getVisibleEditors side_workbench) \<and>
   input ex_side_editor = Some (SideBySideEditorInput (FileInput readme_md) (FileInput x_ts)) \<and>
   contains (changesEvent [(URI_file ''/proj/README.md'', UPDATED), (URI_file ''/proj/src/x.ts'', UPDATED)])
     (getResource x_ts) UPDATED \<and>
   models side_workbench (getResource x_ts) = Some ex_model \<and>
   getState ex_model = SAVED \<and>
   13000 - getLastSaveAttemptTime ex_model = 3000 \<and>
   handleUpdatesToVisibleEditors side_workbench
     (changesEvent [(URI_file ''/proj/README.md'', UPDATED), (URI_file ''/proj/src/x.ts'', UPDATED)])
     13000 = []"
  by (simp add: ex_side_editor_def side_workbench_def changesEvent_def candidateInput_def
      getMatchingFileEditorInputFromSideBySide_def getMatchingFileEditorInputFromInput_def
      handleUpdatesToVisibleEditors_def updateEditor_def readme_md_def x_ts_def ex_model_def
      BINARY_FILE_EDITOR_ID_def)

text \<open>
  Claim C2, amended. Let a visible editor show a file input that update handling goes
  on with: its input, the master of its side by side input, or the details of its side
  by side input whose master is not a file input with an updated record. Let the batch
  event contain the resource of the file input as updated, and let the text model of
  this resource be in the saved state. If the last save attempt was 500 ms ago, no load
  of this model is issued; if it was 3000 ms ago, the load is issued. The load is issued
  exactly when more than 2000 ms have passed.
\<close>

theorem reload_debounce:
  assumes "editor \<in> set (getVisibleEditors w)"
    and "input editor = Some (FileInput f) \<or>
         (\<exists>d. input editor = Some (SideBySideEditorInput (FileInput f) d)) \<or>
         (\<exists>m. input editor = Some (SideBySideEditorInput m (FileInput f)) \<and>
              (\<forall>fm. m = FileInput fm \<longrightarrow> \<not> contains e (getResource fm) UPDATED))"
    and "contains e (getResource f) UPDATED"
    and "models w (getResource f) = Some m"
    and "getState m = SAVED"
  shows "(now - getLastSaveAttemptTime m = 500 \<longrightarrow>
            (\<forall>ed vs mt. LoadModel m ed vs mt \<notin> set (handleUpdatesToVisibleEditors w e now))) \<and>
         (now - getLastSaveAttemptTime m = 3000 \<longrightarrow>
            LoadModel m editor (saveViewState editor) (getLastModifiedTime m)
              \<in> set (handleUpdatesToVisibleEditors w e now)) \<and>
         (LoadModel m editor (saveViewState editor) (getLastModifiedTime m)
              \<in> set (handleUpdatesToVisibleEditors w e now)
            \<longleftrightarrow> now - getLastSaveAttemptTime m > 2000)"
proof -
  have cand: "candidateInput e editor = Some f"
    using assms(2,3) by (rule candidate_of_input)
  have upd: "c \<in> set (updateEditor w now editor f) \<longleftrightarrow>
      now - getLastSaveAttemptTime m > 2000 \<and>
      c = LoadModel m editor (saveViewState editor) (getLastModifiedTime m)" for c
    using assms(4,5) by (auto simp: updateEditor_commands FILE_CHANGE_UPDATE_DELAY_def)
  have only: "now - getLastSaveAttemptTime m > 2000"
    if "LoadModel m ed vs mt \<in> set (handleUpdatesToVisibleEditors w e now)" for ed vs mt
    using that
    by (auto simp: handleUpdates_commands updateEditor_commands FILE_CHANGE_UPDATE_DELAY_def
        split: option.splits)
  have issued: "LoadModel m editor (saveViewState editor) (getLastModifiedTime m)
      \<in> set (handleUpdatesToVisibleEditors w e now)" if "now - getLastSaveAttemptTime m > 2000"
    using that assms(1) cand upd by (auto simp: handleUpdates_commands)
  show ?thesis
    using only issued by fastforce
qed

theorem reload_debounce_witness:
  "ex_text_editor \<in> set (getVisibleEditors ex_workbench) \<and>
   input ex_text_editor = Some (FileInput x_ts) \<and>
   contains (changesEvent [(URI_file ''/proj/src/x.ts'', UPDATED)]) (getResource x_ts) UPDATED \<and>
   models ex_workbench (getResource x_ts) = Some ex_model \<and> getState ex_model = SAVED \<and>
   10500 - getLastSaveAttemptTime ex_model = 500 \<and>
   (\<forall>ed vs mt. LoadModel ex_model ed vs mt \<notin> set (handleUpdatesToVisibleEditors ex_workbench
      (changesEvent [(URI_file ''/proj/src/x.ts'', UPDATED)]) 10500)) \<and>
   13000 - getLastSaveAttemptTime ex_model = 3000 \<and>
   LoadModel ex_model ex_text_editor 7 9000 \<in> set (handleUpdatesToVisibleEditors ex_workbench
      (changesEvent [(URI_file ''/proj/src/x.ts'', UPDATED)]) 13000) \<and>
   ex_side_editor \<in> set (getVisibleEditors side_workbench) \<and>
   input ex_side_editor = Some (SideBySideEditorInput (FileInput readme_md) (FileInput x_ts)) \<and>
   \<not> contains (changesEvent [(URI_file ''/proj/src/x.ts'', UPDATED)]) (getResource readme_md) UPDATED \<and>
   models side_workbench (getResource x_ts) = Some ex_model \<and>
   LoadModel ex_model ex_side_editor 3 9000 \<in> set (handleUpdatesToVisibleEditors side_workbench
      (changesEvent [(URI_file ''/proj/src/x.ts'', UPDATED)]) 13000)"
proof -
  have vis: "ex_text_editor \<in> set (getVisibleEditors ex_workbench)"
    "ex_side_editor \<in> set (getVisibleEditors side_workbench)"
    by (simp_all add: ex_workbench_def side_workbench_def)
  have own: "input ex_text_editor = Some (FileInput x_ts)"
    by (simp add: ex_text_editor_def)
  have side: "input ex_side_editor = Some (SideBySideEditorInput (FileInput readme_md) (FileInput x_ts))"
    by (simp add: ex_side_editor_def)
  have upd: "contains (changesEvent [(URI_file ''/proj/src/x.ts'', UPDATED)]) (getResource x_ts) UPDATED"
    by (simp add: changesEvent_def x_ts_def)
  have not_master:
    "\<not> contains (changesEvent [(URI_file ''/proj/src/x.ts'', UPDATED)]) (getResource readme_md) UPDATED"
    by (simp add: changesEvent_def readme_md_def)
  have model: "models ex_workbench (getResource x_ts) = Some ex_model"
    "models side_workbench (getResource x_ts) = Some ex_model"
    by (simp_all add: ex_workbench_def side_workbench_def x_ts_def)
  have saved: "getState ex_model = SAVED"
    and times: "10500 - getLastSaveAttemptTime ex_model = 500"
      "13000 - getLastSaveAttemptTime ex_model = 3000"
    and captured: "getLastModifiedTime ex_model = 9000" "saveViewState ex_text_editor = 7"
      "saveViewState ex_side_editor = 3"
    by (simp_all add: ex_model_def ex_text_editor_def ex_side_editor_def)
  have early: "\<forall>ed vs mt. LoadModel ex_model ed vs mt \<notin> set (handleUpdatesToVisibleEditors
      ex_workbench (changesEvent [(URI_file ''/proj/src/x.ts'', UPDATED)]) 10500)"
    using reload_debounce [where editor = ex_text_editor and w = ex_workbench and f = x_ts
        and e = "changesEvent [(URI_file ''/proj/src/x.ts'', UPDATED)]" and m = ex_model
        and now = 10500] vis(1) own upd model(1) saved times(1)
    by blast
  have late: "LoadModel ex_model ex_text_editor 7 9000 \<in> set (handleUpdatesToVisibleEditors
      ex_workbench (changesEvent [(URI_file ''/proj/src/x.ts'', UPDATED)]) 13000)"
    using reload_debounce [where editor = ex_text_editor and w = ex_workbench and f = x_ts
        and e = "changesEvent [(URI_file ''/proj/src/x.ts'', UPDATED)]" and m = ex_model
        and now = 13000] vis(1) own upd model(1) saved times(2) captured
    by force
  have details: "LoadModel ex_model ex_side_editor 3 9000 \<in> set (handleUpdatesToVisibleEditors
      side_workbench (changesEvent [(URI_file ''/proj/src/x.ts'', UPDATED)]) 13000)"
    using reload_debounce [where editor = ex_side_editor and w = side_workbench and f = x_ts
        and e = "changesEvent [(URI_file ''/proj/src/x.ts'', UPDATED)]" and m = ex_model
        and now = 13000] vis(2) side upd not_master model(2) saved times(2) captured
    by force
  show ?thesis
    using vis own side upd not_master model saved times early late details by blast
qed

subsection \<open>Moved files are reopened at the rewritten path\<close>

text \<open>
  Claim C3, as stated, fails: move handling looks at the inputs of the groups
  themselves (line 151). A file input that is the master of a side by side input is an
  open handle whose resource is the old resource of the move, and it is not reopened
  at the new resource: no command is issued.
\<close>

theorem composite_master_not_reopened:
  "x_ts \<in> set (getOpenedFileInputs master_workbench) \<and>
   getResource x_ts = URI_file ''/proj/src/x.ts'' \<and>
   handleMovedFileInOpenedEditors master_workbench (Some (URI_file ''/proj/src/x.ts''))
     (URI_file ''/proj/src/z.ts'') = ([], None)"
  by (simp add: master_workbench_def getOpenedFileInputs_def groupOf_def x_ts_def
      handleMoved_Some reopenMoved_other enumerate_eq_zip)

text \<open>
  Claim C3, amended. Let a file input that is itself an editor of a group (not an
  input inside a side by side input) be equal to or nested under the old resource of
  a move. If its resource is the old resource, the editor is reopened at the new
  resource; otherwise its path is the old path, a separator and a remainder, and the
  editor is reopened at the new path, a separator and the same remainder. The reopening
  forwards the group's answers for pinned, index and active, and the group's position.
  The witness reopens \<^verbatim>\<open>/proj/src/x.ts\<close> at \<^verbatim>\<open>/proj/lib/x.ts\<close> for the move
  of \<^verbatim>\<open>/proj/src\<close> to \<^verbatim>\<open>/proj/lib\<close>.
\<close>

theorem moved_handle_reopened_at_new_path:
  assumes "(pos, grp) \<in> set (enumerate 0 (groups w))"
    and "FileInput f \<in> set (getEditors grp)"
    and "isEqualOrParent (fsPath (getResource f)) (fsPath oldResource)"
  shows "(getResource f = oldResource \<longrightarrow>
            OpenEditor newResource True (isPinned grp (FileInput f))
                (group_indexOf grp (FileInput f)) (\<not> isActive grp (FileInput f)) pos
              \<in> set (fst (handleMovedFileInOpenedEditors w (Some oldResource) newResource))) \<and>
         (getResource f \<noteq> oldResource \<longrightarrow>
            (\<exists>rest. fsPath (getResource f) = fsPath oldResource @ ''/'' @ rest \<and>
               OpenEditor (URI_file (fsPath newResource @ ''/'' @ rest)) True
                   (isPinned grp (FileInput f)) (group_indexOf grp (FileInput f))
                   (\<not> isActive grp (FileInput f)) pos
                 \<in> set (fst (handleMovedFileInOpenedEditors w (Some oldResource) newResource))))"
proof -
  have issued: "OpenEditor (rewrite oldResource newResource (getResource f)) True
      (isPinned grp (FileInput f)) (group_indexOf grp (FileInput f)) (\<not> isActive grp (FileInput f)) pos
      \<in> set (fst (handleMovedFileInOpenedEditors w (Some oldResource) newResource))"
    using assms by (auto simp: handleMoved_commands)
  show ?thesis
  proof (intro conjI impI)
    assume "getResource f = oldResource"
    then show "OpenEditor newResource True (isPinned grp (FileInput f))
        (group_indexOf grp (FileInput f)) (\<not> isActive grp (FileInput f)) pos
        \<in> set (fst (handleMovedFileInOpenedEditors w (Some oldResource) newResource))"
      using issued by (simp add: rewrite_def)
  next
    assume neq: "getResource f \<noteq> oldResource"
    with assms(3) have "prefix (fsPath oldResource @ ''/'') (fsPath (getResource f))"
      by (auto simp: isEqualOrParent_def URI.expand)
    then obtain rest where rest: "fsPath (getResource f) = fsPath oldResource @ ''/'' @ rest"
      by (auto simp: prefix_def)
    then have "rewrite oldResource newResource (getResource f) =
        URI_file (fsPath newResource @ ''/'' @ rest)"
      using neq by (simp add: rewrite_def)
    with issued rest
    show "\<exists>rest. fsPath (getResource f) = fsPath oldResource @ ''/'' @ rest \<and>
        OpenEditor (URI_file (fsPath newResource @ ''/'' @ rest)) True
          (isPinned grp (FileInput f)) (group_indexOf grp (FileInput f))
          (\<not> isActive grp (FileInput f)) pos
        \<in> set (fst (handleMovedFileInOpenedEditors w (Some oldResource) newResource))"
      by auto
  qed
qed

theorem moved_handle_reopened_at_new_path_witness:
  "(0, groupOf [FileInput x_ts, FileInput y_ts, FileInput readme_md])
      \<in> set (enumerate 0 (groups ex_workbench)) \<and>
   FileInput x_ts \<in> set (getEditors (groupOf [FileInput x_ts, FileInput y_ts, FileInput readme_md])) \<and>
   isEqualOrParent (fsPath (getResource x_ts)) (fsPath (URI_file ''/proj/src'')) \<and>
   getResource x_ts \<noteq> URI_file ''/proj/src'' \<and>
   OpenEditor (URI_file ''/proj/lib/x.ts'') True True 0 False 0
     \<in> set (fst (handleMovedFileInOpenedEditors ex_workbench (Some (URI_file ''/proj/src''))
                 (URI_file ''/proj/lib''))) \<and>
   isEqualOrParent (fsPath (getResource x_ts)) (fsPath (URI_file ''/proj/src/x.ts'')) \<and>
   getResource x_ts = URI_file ''/proj/src/x.ts'' \<and>
   OpenEditor (URI_file ''/proj/src/z.ts'') True True 0 False 0
     \<in> set (fst (handleMovedFileInOpenedEditors ex_workbench (Some (URI_file ''/proj/src/x.ts''))
                 (URI_file ''/proj/src/z.ts'')))"
  using moved_handle_reopened_at_new_path [where pos = 0
      and grp = "groupOf [FileInput x_ts, FileInput y_ts, FileInput readme_md]"
      and w = ex_workbench and f = x_ts and oldResource = "URI_file ''/proj/src''"
      and newResource = "URI_file ''/proj/lib''"]
    moved_handle_reopened_at_new_path [where pos = 0
      and grp = "groupOf [FileInput x_ts, FileInput y_ts, FileInput readme_md]"
      and w = ex_workbench and f = x_ts and oldResource = "URI_file ''/proj/src/x.ts''"
      and newResource = "URI_file ''/proj/src/z.ts''"]
  by (simp add: ex_workbench_def groupOf_def x_ts_def y_ts_def readme_md_def isEqualOrParent_def
      enumerate_eq_zip)

text \<open>
  Claim C4, as stated, fails: move handling looks at the inputs of the groups
  themselves (line 151) and does not unwrap side by side inputs. A file input that is
  the details of a side by side input is an opened file input nested under the old
  resource, and no command is issued for it.
\<close>

theorem composite_leaf_not_reopened:
  "x_ts \<in> set (getOpenedFileInputs composite_workbench) \<and>
   isEqualOrParent (fsPath (getResource x_ts)) (fsPath (URI_file ''/proj/src'')) \<and>
   handleMovedFileInOpenedEditors composite_workbench (Some (URI_file ''/proj/src''))
     (URI_file ''/proj/lib'') = ([], None)"
  by (simp add: composite_workbench_def getOpenedFileInputs_def groupOf_def x_ts_def
      isEqualOrParent_def handleMoved_Some reopenMoved_other enumerate_eq_zip)

text \<open>
  Claim C4, amended. For every move, every file input that is itself an editor of a
  group and is equal to or nested under the old resource is reopened at the rewritten
  path, and every command that move handling issues is such a reopening: nothing is
  issued for inputs that are not under the old resource, nor for the inputs inside
  side by side inputs. Move handling does not throw when the old resource is given.
\<close>

theorem move_reopens_file_inputs_of_groups:
  "(\<forall>pos grp f.
      (pos, grp) \<in> set (enumerate 0 (groups w)) \<and> FileInput f \<in> set (getEditors grp) \<and>
      isEqualOrParent (fsPath (getResource f)) (fsPath old) \<longrightarrow>
      OpenEditor (rewrite old new (getResource f)) True (isPinned grp (FileInput f))
          (group_indexOf grp (FileInput f)) (\<not> isActive grp (FileInput f)) pos
        \<in> set (fst (handleMovedFileInOpenedEditors w (Some old) new))) \<and>
   (\<forall>c \<in> set (fst (handleMovedFileInOpenedEditors w (Some old) new)).
      \<exists>pos grp f.
        (pos, grp) \<in> set (enumerate 0 (groups w)) \<and> FileInput f \<in> set (getEditors grp) \<and>
        isEqualOrParent (fsPath (getResource f)) (fsPath old) \<and>
        c = OpenEditor (rewrite old new (getResource f)) True (isPinned grp (FileInput f))
              (group_indexOf grp (FileInput f)) (\<not> isActive grp (FileInput f)) pos) \<and>
   snd (handleMovedFileInOpenedEditors w (Some old) new) = None"
  by (auto simp: handleMoved_commands) (simp add: handleMoved_Some)

theorem move_reopens_file_inputs_of_groups_witness:
  "(0, groupOf [FileInput x_ts, FileInput y_ts, FileInput readme_md])
      \<in> set (enumerate 0 (groups ex_workbench)) \<and>
   FileInput y_ts \<in> set (getEditors (groupOf [FileInput x_ts, FileInput y_ts, FileInput readme_md])) \<and>
   isEqualOrParent (fsPath (getResource y_ts)) (fsPath (URI_file ''/proj/src'')) \<and>
   OpenEditor (URI_file ''/proj/lib/y.ts'') True False 1 True 0
     \<in> set (fst (handleMovedFileInOpenedEditors ex_workbench (Some (URI_file ''/proj/src''))
                 (URI_file ''/proj/lib'')))"
  using move_reopens_file_inputs_of_groups [where w = ex_workbench
      and old = "URI_file ''/proj/src''" and new = "URI_file ''/proj/lib''",
      THEN conjunct1, rule_format, where pos = 0
      and grp = "groupOf [FileInput x_ts, FileInput y_ts, FileInput readme_md]" and f = y_ts]
  by (simp add: ex_workbench_def groupOf_def x_ts_def y_ts_def readme_md_def isEqualOrParent_def
      enumerate_eq_zip rewrite_def)

subsection \<open>The destination of a move is never disposed\<close>

text \<open>
  Claim C5. A delete pass that carries a move destination skips every open handle
  whose resource is exactly the destination: no dispose command is issued for it, by
  \<^verbatim>\<open>handleDeletes\<close> or by the listener for local events that reports the move.
  For the rename of \<^verbatim>\<open>/A/file.txt\<close> to \<^verbatim>\<open>/a/file.txt\<close> (the witness), the
  editor is reopened at \<^verbatim>\<open>/a/file.txt\<close> and the input at \<^verbatim>\<open>/a/file.txt\<close> is
  not disposed by the delete pass for the old path.
\<close>

theorem move_destination_never_disposed:
  assumes "fsPath (getResource f) = fsPath dest"
  shows "Dispose f \<notin> set (handleDeletes w arg (Some dest)) \<and>
         (gotMoved ev \<and> map_option resource (getAfter ev) = Some dest \<longrightarrow>
            Dispose f \<notin> set (fst (onLocalFileChange w w' ev)))"
proof (intro conjI impI)
  show del: "Dispose f \<notin> set (handleDeletes w arg (Some dest))" for w arg
    using assms by (auto simp: handleDeletes_commands)
  assume "gotMoved ev \<and> map_option resource (getAfter ev) = Some dest"
  then show "Dispose f \<notin> set (fst (onLocalFileChange w w' ev))"
    using del [of w'] handleMoved_no_Dispose [of f w]
    by (auto dest!: onLocalFileChange_commands)
qed

theorem move_destination_never_disposed_witness:
  "fsPath (getResource lower_file) = fsPath (URI_file ''/a/file.txt'') \<and>
   gotMoved ex_rename \<and> map_option resource (getAfter ex_rename) = Some (URI_file ''/a/file.txt'') \<and>
   lower_file \<in> set (getOpenedFileInputs rename_reopened) \<and>
   Dispose lower_file \<notin> set (handleDeletes rename_reopened (Inl (URI_file ''/A/file.txt''))
      (Some (URI_file ''/a/file.txt''))) \<and>
   Dispose lower_file \<notin> set (fst (onLocalFileChange rename_before rename_reopened ex_rename)) \<and>
   OpenEditor (URI_file ''/a/file.txt'') True True 0 False 0
     \<in> set (fst (onLocalFileChange rename_before rename_reopened ex_rename))"
  using move_destination_never_disposed [where f = lower_file and dest = "URI_file ''/a/file.txt''"
      and w = rename_before and w' = rename_reopened and arg = "Inl (URI_file ''/A/file.txt'')"
      and ev = ex_rename]
    move_destination_never_disposed [where f = lower_file and dest = "URI_file ''/a/file.txt''"
      and w = rename_reopened and w' = rename_reopened and arg = "Inl (URI_file ''/A/file.txt'')"
      and ev = ex_rename]
  by (simp add: lower_file_def upper_file_def ex_rename_def rename_reopened_def rename_before_def
      groupOf_def getOpenedFileInputs_def onLocalFileChange_def handleMoved_Some reopenMoved_file
      isEqualOrParent_def rewrite_def enumerate_eq_zip)

subsection \<open>Which visible inputs update handling goes on with\<close>

text \<open>
  Claim C6, as stated, fails: of a side by side input, update handling goes on with
  one input only, the master if it matches. Here both inputs have an updated record;
  the details input is not the candidate and nothing is issued for it.
\<close>

theorem side_by_side_details_skipped:
  "input ex_side_editor = Some (SideBySideEditorInput (FileInput readme_md) (FileInput x_ts)) \<and>
   contains (changesEvent [(URI_file ''/proj/README.md'', UPDATED), (URI_file ''/proj/src/x.ts'', UPDATED)])
     (getResource x_ts) UPDATED \<and>
   candidateInput (changesEvent [(URI_file ''/proj/README.md'', UPDATED), (URI_file ''/proj/src/x.ts'', UPDATED)])
     ex_side_editor = Some readme_md \<and>
   readme_md \<noteq> x_ts \<and>
   handleUpdatesToVisibleEditors side_workbench
     (changesEvent [(URI_file ''/proj/README.md'', UPDATED), (URI_file ''/proj/src/x.ts'', UPDATED)])
     13000 = []"
  by (simp add: ex_side_editor_def side_workbench_def changesEvent_def candidateInput_def
      getMatchingFileEditorInputFromSideBySide_def getMatchingFileEditorInputFromInput_def
      handleUpdatesToVisibleEditors_def updateEditor_def readme_md_def x_ts_def
      BINARY_FILE_EDITOR_ID_def)

text \<open>
  Claim C6, amended. A visible editor whose input is itself a file input is a
  candidate if and only if the event contains an updated or an added record for its
  resource. Of a side by side input, the master is the candidate when the event
  contains an updated record for it; the details input is the candidate when the event
  contains an updated record for it and the master is not a file input or has neither
  record. Every candidate has an updated or an added record and is an input of the
  editor.
\<close>

theorem update_candidates:
  "(input editor = Some (FileInput f) \<longrightarrow>
      (candidateInput e editor = Some f \<longleftrightarrow>
         contains e (getResource f) UPDATED \<or> contains e (getResource f) ADDED)) \<and>
   (input editor = Some (SideBySideEditorInput (FileInput fm) d) \<and>
      contains e (getResource fm) UPDATED \<longrightarrow> candidateInput e editor = Some fm) \<and>
   (input editor = Some (SideBySideEditorInput m (FileInput fd)) \<and>
      (\<forall>fm. m = FileInput fm \<longrightarrow>
         \<not> contains e (getResource fm) UPDATED \<and> \<not> contains e (getResource fm) ADDED) \<and>
      contains e (getResource fd) UPDATED \<longrightarrow> candidateInput e editor = Some fd) \<and>
   (candidateInput e editor = Some f \<longrightarrow>
      (contains e (getResource f) UPDATED \<or> contains e (getResource f) ADDED) \<and>
      (\<exists>i. input editor = Some i \<and> f \<in> set (fileInputsOf i)))"
proof (intro conjI impI)
  assume "input editor = Some (FileInput f)"
  then show "candidateInput e editor = Some f \<longleftrightarrow>
      contains e (getResource f) UPDATED \<or> contains e (getResource f) ADDED"
    by (simp add: candidateInput_def)
next
  assume "input editor = Some (SideBySideEditorInput (FileInput fm) d) \<and>
    contains e (getResource fm) UPDATED"
  then show "candidateInput e editor = Some fm"
    by (simp add: candidateInput_def getMatchingFileEditorInputFromSideBySide_def
        getMatchingFileEditorInputFromInput_def)
next
  assume "input editor = Some (SideBySideEditorInput m (FileInput fd)) \<and>
    (\<forall>fm. m = FileInput fm \<longrightarrow>
       \<not> contains e (getResource fm) UPDATED \<and> \<not> contains e (getResource fm) ADDED) \<and>
    contains e (getResource fd) UPDATED"
  then show "candidateInput e editor = Some fd"
    by (cases m) (simp_all add: candidateInput_def getMatchingFileEditorInputFromSideBySide_def
        getMatchingFileEditorInputFromInput_def)
next
  assume c: "candidateInput e editor = Some f"
  then show "contains e (getResource f) UPDATED \<or> contains e (getResource f) ADDED"
    by (auto simp: candidateInput_def Let_def
        split: option.splits EditorInput.splits if_splits)
  from c show "\<exists>i. input editor = Some i \<and> f \<in> set (fileInputsOf i)"
    by (auto simp: candidateInput_def Let_def getMatchingFileEditorInputFromSideBySide_def
        getMatchingFileEditorInputFromInput_def
        split: option.splits EditorInput.splits if_splits)
qed

theorem update_candidates_witness:
  "input ex_text_editor = Some (FileInput x_ts) \<and>
   contains (changesEvent [(URI_file ''/proj/src/x.ts'', ADDED)]) (getResource x_ts) ADDED \<and>
   candidateInput (changesEvent [(URI_file ''/proj/src/x.ts'', ADDED)]) ex_text_editor = Some x_ts \<and>
   input ex_side_editor = Some (SideBySideEditorInput (FileInput readme_md) (FileInput x_ts)) \<and>
   contains (changesEvent [(URI_file ''/proj/README.md'', UPDATED)]) (getResource readme_md) UPDATED \<and>
   candidateInput (changesEvent [(URI_file ''/proj/README.md'', UPDATED)]) ex_side_editor
     = Some readme_md \<and>
   \<not> contains (changesEvent [(URI_file ''/proj/src/x.ts'', UPDATED)]) (getResource readme_md) UPDATED \<and>
   \<not> contains (changesEvent [(URI_file ''/proj/src/x.ts'', UPDATED)]) (getResource readme_md) ADDED \<and>
   contains (changesEvent [(URI_file ''/proj/src/x.ts'', UPDATED)]) (getResource x_ts) UPDATED \<and>
   candidateInput (changesEvent [(URI_file ''/proj/src/x.ts'', UPDATED)]) ex_side_editor = Some x_ts \<and>
   x_ts \<in> set (fileInputsOf (SideBySideEditorInput (FileInput readme_md) (FileInput x_ts)))"
proof -
  have direct: "input ex_text_editor = Some (FileInput x_ts)"
    by (simp add: ex_text_editor_def)
  have side: "input ex_side_editor = Some (SideBySideEditorInput (FileInput readme_md) (FileInput x_ts))"
    by (simp add: ex_side_editor_def)
  have added: "contains (changesEvent [(URI_file ''/proj/src/x.ts'', ADDED)]) (getResource x_ts) ADDED"
    by (simp add: changesEvent_def x_ts_def)
  have readme: "contains (changesEvent [(URI_file ''/proj/README.md'', UPDATED)])
      (getResource readme_md) UPDATED"
    by (simp add: changesEvent_def readme_md_def)
  have not_readme:
    "\<not> contains (changesEvent [(URI_file ''/proj/src/x.ts'', UPDATED)]) (getResource readme_md) UPDATED"
    "\<not> contains (changesEvent [(URI_file ''/proj/src/x.ts'', UPDATED)]) (getResource readme_md) ADDED"
    by (simp_all add: changesEvent_def readme_md_def)
  have x: "contains (changesEvent [(URI_file ''/proj/src/x.ts'', UPDATED)]) (getResource x_ts) UPDATED"
    by (simp add: changesEvent_def x_ts_def)
  have c1: "candidateInput (changesEvent [(URI_file ''/proj/src/x.ts'', ADDED)]) ex_text_editor
      = Some x_ts"
    using update_candidates [where editor = ex_text_editor and f = x_ts
        and e = "changesEvent [(URI_file ''/proj/src/x.ts'', ADDED)]"] direct added
    by blast
  have c2: "candidateInput (changesEvent [(URI_file ''/proj/README.md'', UPDATED)]) ex_side_editor
      = Some readme_md"
    using update_candidates [where editor = ex_side_editor and fm = readme_md
        and d = "FileInput x_ts" and e = "changesEvent [(URI_file ''/proj/README.md'', UPDATED)]"]
      side readme
    by blast
  have c3: "candidateInput (changesEvent [(URI_file ''/proj/src/x.ts'', UPDATED)]) ex_side_editor
      = Some x_ts"
    using update_candidates [where editor = ex_side_editor and m = "FileInput readme_md"
        and fd = x_ts and e = "changesEvent [(URI_file ''/proj/src/x.ts'', UPDATED)]"]
      side not_readme x
    by blast
  have leaf: "x_ts \<in> set (fileInputsOf (SideBySideEditorInput (FileInput readme_md) (FileInput x_ts)))"
    using update_candidates [where editor = ex_side_editor and f = x_ts
        and e = "changesEvent [(URI_file ''/proj/src/x.ts'', UPDATED)]"] c3 side
    by auto
  show ?thesis
    using direct side added readme not_readme x c1 c2 c3 leaf by blast
qed

text \<open>
  A side by side input is looked up by its updated records only (line 255): without
  one, no input of it is a candidate.
\<close>

lemma side_by_side_added_only:
  assumes "input editor = Some (SideBySideEditorInput m d)"
    and "\<forall>f \<in> set (fileInputsOf (SideBySideEditorInput m d)). \<not> contains e (getResource f) UPDATED"
  shows "candidateInput e editor = None"
  using assms
  by (cases m; cases d)
    (simp_all add: candidateInput_def getMatchingFileEditorInputFromSideBySide_def
      getMatchingFileEditorInputFromInput_def)

subsection \<open>Binary editors are always reopened\<close>



subsection \<open>Local events with missing data\<close>

text \<open>
  A missing after resource is checked before use (line 67): an event that reports a
  move and no delete, and has no after resource, is a no-op. A reported delete has no
  after resource and is processed as the delete of the before resource. No event whose
  before resource is present throws.
\<close>

lemma local_event_missing_after:
  "(gotMoved ev \<and> \<not> local_gotDeleted ev \<and> getAfter ev = None \<longrightarrow>
      onLocalFileChange w w' ev = ([], None)) \<and>
   (local_gotDeleted ev \<and> getAfter ev = None \<and> getBefore ev = Some b \<longrightarrow>
      onLocalFileChange w w' ev = (handleDeletes w' (Inl (resource b)) None, None)) \<and>
   (getBefore ev = Some b \<longrightarrow> snd (onLocalFileChange w w' ev) = None)"
  by (auto simp: onLocalFileChange_def handleMoved_Some split: option.splits)

text \<open>
  The before resource is read without a check at line 79, and at line 155 after the
  check of line 74 has passed \<^verbatim>\<open>null\<close> on: an event that reports a delete or a
  complete move target, and has no before resource, throws.
\<close>

lemma local_event_missing_before_throws:
  assumes "getBefore ev = None"
    and "local_gotDeleted ev \<or> (gotMoved ev \<and> getAfter ev \<noteq> None)"
  shows "snd (onLocalFileChange w w' ev) = Some TypeError"
  using assms
  by (cases "handleMovedFileInOpenedEditors w None (resource (the (getAfter ev)))")
    (auto simp: onLocalFileChange_def split: option.splits error.splits intro: error.exhaust)

text \<open>
  Claim C8 says that a local event which reports a move or a delete and lacks its
  before or after resource is a no-op without an error, every use of the missing
  resource being guarded. The source guards the before resource at line 74 only: a
  reported move without a before resource throws a TypeError at line 155 when a file
  input is open, and at line 79 when none is; a reported delete without a before
  resource throws at line 79.
\<close>

theorem local_event_without_before_throws:
  "onLocalFileChange ex_workbench ex_workbench ex_move_without_before = ([], Some TypeError) \<and>
   onLocalFileChange empty_workbench empty_workbench ex_move_without_before = ([], Some TypeError) \<and>
   onLocalFileChange ex_workbench ex_workbench ex_delete_without_before = ([], Some TypeError)"
  by (simp add: onLocalFileChange_def handleMovedFileInOpenedEditors_def reopenMoved_def
      ex_move_without_before_def ex_delete_without_before_def ex_workbench_def
      empty_workbench_def groupOf_def enumerate_eq_zip)

subsection \<open>Restoring the view state after a load\<close>

lemma isEditorShowingPath_iff:
  "isEditorShowingPath editor r \<longleftrightarrow>
   isVisible editor \<and>
   (\<exists>f. (input editor = Some (FileInput f) \<or>
         (\<exists>d. input editor = Some (SideBySideEditorInput (FileInput f) d))) \<and>
        getResource f = r)"
  by (auto simp: isEditorShowingPath_def toString_eq split: option.splits EditorInput.splits)

text \<open>
  Claim C9. For every load that update handling issues, the completion callback
  restores a view state only if the modification time of the model differs from the one
  captured before the load and the editor is visible and shows (as its input, or as the
  master of its side by side input) a file input of the model's resource; the view state
  restored is the captured one. If the editor is no longer visible, has no input, or
  shows a file input of another resource, nothing is restored.
\<close>

theorem view_state_restored_only_if_still_showing:
  assumes "c \<in> set (handleUpdatesToVisibleEditors w e now)"
  shows "(loadDone c m' editor' = Some v \<longrightarrow>
            (\<exists>m editor. editor \<in> set (getVisibleEditors w) \<and>
               c = LoadModel m editor (saveViewState editor) (getLastModifiedTime m) \<and>
               v = saveViewState editor \<and>
               getLastModifiedTime m' \<noteq> getLastModifiedTime m \<and>
               isVisible editor' \<and>
               (\<exists>f. (input editor' = Some (FileInput f) \<or>
                     (\<exists>d. input editor' = Some (SideBySideEditorInput (FileInput f) d))) \<and>
                    getResource f = model_getResource m'))) \<and>
         ((\<not> isVisible editor' \<or> input editor' = None \<or>
           (\<exists>f. input editor' = Some (FileInput f) \<and> getResource f \<noteq> model_getResource m')) \<longrightarrow>
            loadDone c m' editor' = None)"
proof (intro conjI impI)
  assume restored: "loadDone c m' editor' = Some v"
  from assms obtain editor f where ed: "editor \<in> set (getVisibleEditors w)"
    and "c \<in> set (updateEditor w now editor f)"
    by (auto simp: handleUpdates_commands)
  then consider m where "c = LoadModel m editor (saveViewState editor) (getLastModifiedTime m)"
    | "c = ForceOpenEditor (input editor) True True (position editor)"
    by (auto simp: updateEditor_commands split: option.splits)
  then show "\<exists>m editor. editor \<in> set (getVisibleEditors w) \<and>
      c = LoadModel m editor (saveViewState editor) (getLastModifiedTime m) \<and>
      v = saveViewState editor \<and>
      getLastModifiedTime m' \<noteq> getLastModifiedTime m \<and>
      isVisible editor' \<and>
      (\<exists>f. (input editor' = Some (FileInput f) \<or>
            (\<exists>d. input editor' = Some (SideBySideEditorInput (FileInput f) d))) \<and>
           getResource f = model_getResource m')"
  proof cases
    case 1
    with restored have "getLastModifiedTime m' \<noteq> getLastModifiedTime m"
      and "isEditorShowingPath editor' (model_getResource m')" and "v = saveViewState editor"
      by (auto split: if_splits)
    with 1 ed show ?thesis
      unfolding isEditorShowingPath_iff by blast
  next
    case 2
    with restored show ?thesis by simp
  qed
next
  assume "\<not> isVisible editor' \<or> input editor' = None \<or>
    (\<exists>f. input editor' = Some (FileInput f) \<and> getResource f \<noteq> model_getResource m')"
  then have "\<not> isEditorShowingPath editor' (model_getResource m')"
    by (auto simp: isEditorShowingPath_iff)
  then show "loadDone c m' editor' = None"
    by (cases c) simp_all
qed

theorem view_state_restored_only_if_still_showing_witness:
  "LoadModel ex_model ex_text_editor 7 9000
     \<in> set (handleUpdatesToVisibleEditors ex_workbench
          (changesEvent [(URI_file ''/proj/src/x.ts'', UPDATED)]) 13000) \<and>
   loadDone (LoadModel ex_model ex_text_editor 7 9000) ex_reloaded_model ex_text_editor = Some 7 \<and>
   getLastModifiedTime ex_reloaded_model \<noteq> getLastModifiedTime ex_model \<and>
   isVisible ex_text_editor \<and>
   input (ex_text_editor\<lparr>input := None\<rparr>) = None \<and>
   loadDone (LoadModel ex_model ex_text_editor 7 9000) ex_reloaded_model
     (ex_text_editor\<lparr>input := None\<rparr>) = None"
  using view_state_restored_only_if_still_showing [where w = ex_workbench
      and e = "changesEvent [(URI_file ''/proj/src/x.ts'', UPDATED)]" and now = 13000
      and c = "LoadModel ex_model ex_text_editor 7 9000" and m' = ex_reloaded_model
      and editor' = ex_text_editor and v = 7]
    view_state_restored_only_if_still_showing [where w = ex_workbench
      and e = "changesEvent [(URI_file ''/proj/src/x.ts'', UPDATED)]" and now = 13000
      and c = "LoadModel ex_model ex_text_editor 7 9000" and m' = ex_reloaded_model
      and editor' = "ex_text_editor\<lparr>input := None\<rparr>" and v = 7]
  by (simp add: handleUpdatesToVisibleEditors_def candidateInput_def updateEditor_def
      FILE_CHANGE_UPDATE_DELAY_def ex_workbench_def ex_text_editor_def ex_binary_editor_def
      x_ts_def a_png_def ex_model_def ex_reloaded_model_def changesEvent_def
      isEditorShowingPath_def toString_def)

subsection \<open>Processing a batch event twice\<close>

text \<open>
  Claim C10. Let the registry after a first pass over a batch event hold exactly the
  opened file inputs that the pass did not dispose. Then a second pass over the same
  event (at any time, whatever is visible then) leaves the same set of open handles as
  the first one.
\<close>

theorem onFileChanges_idempotent:
  assumes "set (getOpenedFileInputs w1) = set (survivors w (onFileChanges w e now))"
  shows "set (survivors w1 (onFileChanges w1 e now1)) = set (survivors w (onFileChanges w e now))"
proof -
  have disposed: "Dispose f \<in> set (onFileChanges v e t) \<longleftrightarrow>
      gotDeleted e \<and> f \<in> set (getOpenedFileInputs v) \<and> \<not> isDirty f \<and>
      contains e (getResource f) DELETED" for f v t
    by (auto simp: onFileChanges_def handleUpdates_no_Dispose handleDeletes_commands)
  have "Dispose f \<notin> set (onFileChanges w1 e now1)" if "f \<in> set (getOpenedFileInputs w1)" for f
  proof
    assume again: "Dispose f \<in> set (onFileChanges w1 e now1)"
    from that assms have "f \<in> set (getOpenedFileInputs w)"
      and "Dispose f \<notin> set (onFileChanges w e now)"
      by (auto simp: survivors_def)
    with again show False
      by (simp add: disposed)
  qed
  then have "set (survivors w1 (onFileChanges w1 e now1)) = set (getOpenedFileInputs w1)"
    by (auto simp: survivors_def)
  with assms show ?thesis by simp
qed

theorem onFileChanges_idempotent_witness:
  "set (getOpenedFileInputs ex_after_delete) =
     set (survivors ex_workbench (onFileChanges ex_workbench
       (changesEvent [(URI_file ''/proj/src/x.ts'', DELETED), (URI_file ''/proj/src/y.ts'', DELETED)])
       13000)) \<and>
   set (survivors ex_after_delete (onFileChanges ex_after_delete
       (changesEvent [(URI_file ''/proj/src/x.ts'', DELETED), (URI_file ''/proj/src/y.ts'', DELETED)])
       14000)) =
     set (survivors ex_workbench (onFileChanges ex_workbench
       (changesEvent [(URI_file ''/proj/src/x.ts'', DELETED), (URI_file ''/proj/src/y.ts'', DELETED)])
       13000)) \<and>
   set (getOpenedFileInputs ex_after_delete) = {y_ts, readme_md, a_png}"
  using onFileChanges_idempotent [where w = ex_workbench and ?w1.0 = ex_after_delete
      and e = "changesEvent [(URI_file ''/proj/src/x.ts'', DELETED), (URI_file ''/proj/src/y.ts'', DELETED)]"
      and now = 13000 and ?now1.0 = 14000]
  by (simp add: survivors_def onFileChanges_def handleUpdatesToVisibleEditors_def
      candidateInput_def handleDeletes_def disposeIfDeleted_def getOpenedFileInputs_def
      ex_workbench_def ex_after_delete_def groupOf_def ex_text_editor_def ex_binary_editor_def
      x_ts_def y_ts_def readme_md_def a_png_def changesEvent_def)

end
